theory Spec2Isabelle
  imports Complex_Main "HOL-Library.Sublist"
begin

section \<open>Python values and text\<close>

text \<open>
  The matcher in \<^verbatim>\<open>matching_logic.py\<close> works on dictionaries whose values are mostly
  strings.  A Python \<^verbatim>\<open>str\<close> is a sequence of code points; a \<^typ>\<open>string\<close> here is a
  list of \<^typ>\<open>char\<close>, read as the code points 0 to 255 (ASCII and Latin-1, which covers
  the Portuguese sample data of the module).  Code points above 255 are outside the model.
\<close>

datatype pyval = PyNone | PyInt int | PyStr string

type_synonym pydict = "string \<rightharpoonup> pyval"

text \<open>\<^verbatim>\<open>str.lower()\<close> on code points below 256: A-Z and the accented capitals
  U+00C0..U+00DE (without the multiplication sign U+00D7) move up by 32.\<close>

definition is_upper_cp :: "char \<Rightarrow> bool" where
  "is_upper_cp c =
     (let n = (of_char c :: nat)
      in (65 \<le> n \<and> n \<le> 90) \<or> (192 \<le> n \<and> n \<le> 214) \<or> (216 \<le> n \<and> n \<le> 222))"

definition lower_cp :: "char \<Rightarrow> char" where
  "lower_cp c = (if is_upper_cp c then char_of ((of_char c :: nat) + 32) else c)"

definition str_lower :: "string \<Rightarrow> string" where
  "str_lower s = map lower_cp s"

text \<open>The class \<^verbatim>\<open>\w\<close> of a \<^verbatim>\<open>str\<close> pattern: alphanumeric code points
  (\<^verbatim>\<open>str.isalnum\<close>) and the underscore.  Below 256 these are the ASCII digits and
  letters, the ordinal indicators and the micro sign, the superscript digits and the
  vulgar fractions, and the accented letters.\<close>

definition is_word :: "char \<Rightarrow> bool" where
  "is_word c =
     (let n = (of_char c :: nat)
      in (48 \<le> n \<and> n \<le> 57) \<or> (65 \<le> n \<and> n \<le> 90) \<or> n = 95 \<or> (97 \<le> n \<and> n \<le> 122)
         \<or> n = 170 \<or> n = 178 \<or> n = 179 \<or> n = 181 \<or> n = 185 \<or> n = 186
         \<or> (188 \<le> n \<and> n \<le> 190) \<or> (192 \<le> n \<and> n \<le> 214)
         \<or> (216 \<le> n \<and> n \<le> 246) \<or> (248 \<le> n \<and> n \<le> 255))"

definition non_word :: "char \<Rightarrow> bool" where
  "non_word c = (\<not> is_word c)"

text \<open>The class \<^verbatim>\<open>\s\<close>, which is also what \<^verbatim>\<open>str.strip()\<close> removes:
  \<^verbatim>\<open>str.isspace\<close>.  Below 256: tab to carriage return, the four separators
  U+001C..U+001F, the space, NEL (U+0085) and the no-break space (U+00A0).\<close>

definition is_space :: "char \<Rightarrow> bool" where
  "is_space c =
     (let n = (of_char c :: nat)
      in (9 \<le> n \<and> n \<le> 13) \<or> (28 \<le> n \<and> n \<le> 32) \<or> n = 133 \<or> n = 160)"

text \<open>\<^verbatim>\<open>re.sub(r'C+', ' ', s)\<close> for a character class \<open>C\<close>: scanning from the left,
  each maximal run of characters of the class is replaced by one space.\<close>

function re_sub_runs :: "(char \<Rightarrow> bool) \<Rightarrow> string \<Rightarrow> string" where
  "re_sub_runs P [] = []"
| "re_sub_runs P (c # cs) =
     (if P c then CHR '' '' # re_sub_runs P (dropWhile P cs) else c # re_sub_runs P cs)"
  by pat_completeness auto
termination
  by (relation "measure (\<lambda>(P, s). length s)")
     (auto simp: length_dropWhile_le less_Suc_eq_le)

definition str_strip :: "string \<Rightarrow> string" where
  "str_strip s = rev (dropWhile is_space (rev (dropWhile is_space s)))"

subsection \<open>The text normalizer\<close>

text \<open>
  \<^verbatim>\<open>
  def preprocessar_texto(texto):
      if not isinstance(texto, str):
          return ""
      texto = texto.lower()
      texto = re.sub(r'\W+', ' ', texto)
      texto = re.sub(r'\s+', ' ', texto).strip()
      return texto
  \<close>
\<close>

fun preprocessar_texto :: "pyval \<Rightarrow> string" where
  "preprocessar_texto (PyStr texto) =
     str_strip (re_sub_runs is_space (re_sub_runs non_word (str_lower texto)))"
| "preprocessar_texto _ = []"

text \<open>The same contract in the words of the specification: lowercase the text; replace
  every maximal run of non-word characters by a single space; collapse runs of whitespace
  to one space; trim.  A string is cut into its maximal runs (\<open>runs\<close>), and the runs
  of the class are replaced.\<close>

function runs :: "(char \<Rightarrow> bool) \<Rightarrow> string \<Rightarrow> string list" where
  "runs P [] = []"
| "runs P (c # cs) =
     (if P c then takeWhile P (c # cs) # runs P (dropWhile P cs)
      else takeWhile (\<lambda>x. \<not> P x) (c # cs) # runs P (dropWhile (\<lambda>x. \<not> P x) cs))"
  by pat_completeness auto
termination
  by (relation "measure (\<lambda>(P, s). length s)")
     (auto simp: length_dropWhile_le less_Suc_eq_le)

definition replace_runs :: "(char \<Rightarrow> bool) \<Rightarrow> string \<Rightarrow> string" where
  "replace_runs P s = concat (map (\<lambda>r. if P (hd r) then [CHR '' ''] else r) (runs P s))"

definition trim :: "string \<Rightarrow> string" where
  "trim s = rev (dropWhile is_space (rev (dropWhile is_space s)))"

definition normalize_spec :: "pyval \<Rightarrow> string" where
  "normalize_spec v =
     (case v of
        PyStr t \<Rightarrow> trim (replace_runs is_space (replace_runs non_word (map lower_cp t)))
      | _ \<Rightarrow> [])"

text \<open>A third view of the result, used in the proofs: the maximal runs of word characters
  of the lowercased text, joined by single spaces.\<close>

function word_runs :: "string \<Rightarrow> string list" where
  "word_runs [] = []"
| "word_runs (c # cs) =
     (if is_word c then takeWhile is_word (c # cs) # word_runs (dropWhile is_word cs)
      else word_runs cs)"
  by pat_completeness auto
termination
  by (relation "measure length") (auto simp: length_dropWhile_le less_Suc_eq_le)

fun join_sp :: "string list \<Rightarrow> string" where
  "join_sp [] = []"
| "join_sp [w] = w"
| "join_sp (w # ws) = w @ CHR '' '' # join_sp ws"

definition word_token :: "string \<Rightarrow> bool" where
  "word_token w = (w \<noteq> [] \<and> list_all is_word w)"

subsection \<open>The document builder\<close>

text \<open>
  \<^verbatim>\<open>
  def criar_documento(item, tipo):
      if tipo == 'trabalhador':
          texto_habilidades = preprocessar_texto(item.get('habilidades', ''))
          texto_experiencia = preprocessar_texto(item.get('experiencia', ''))
          return f"{texto_habilidades} {texto_experiencia}".strip()
      elif tipo == 'vaga':
          texto_requisitos = preprocessar_texto(item.get('requisitos_habilidades', ''))
          texto_descricao = preprocessar_texto(item.get('descricao', ''))
          return f"{texto_requisitos} {texto_descricao}".strip()
      return ""
  \<close>
  \<open>dict_get\<close> is \<^verbatim>\<open>dict.get(key, default)\<close>.
\<close>

definition dict_get :: "pydict \<Rightarrow> string \<Rightarrow> pyval \<Rightarrow> pyval" where
  "dict_get d k dflt = (case d k of None \<Rightarrow> dflt | Some v \<Rightarrow> v)"

definition criar_documento :: "pydict \<Rightarrow> pyval \<Rightarrow> string" where
  "criar_documento item tipo =
     (if tipo = PyStr ''trabalhador'' then
        (let texto_habilidades = preprocessar_texto (dict_get item ''habilidades'' (PyStr []));
             texto_experiencia = preprocessar_texto (dict_get item ''experiencia'' (PyStr []))
         in str_strip (texto_habilidades @ [CHR '' ''] @ texto_experiencia))
      else if tipo = PyStr ''vaga'' then
        (let texto_requisitos =
               preprocessar_texto (dict_get item ''requisitos_habilidades'' (PyStr []));
             texto_descricao = preprocessar_texto (dict_get item ''descricao'' (PyStr []))
         in str_strip (texto_requisitos @ [CHR '' ''] @ texto_descricao))
      else [])"

subsection \<open>The sample data\<close>

text \<open>The two module-level lists, character by character; the accented letters are
  given by their code points.\<close>

definition trabalhadores_exemplo :: "pydict list" where
  "trabalhadores_exemplo =
     [
      map_of [
        (''id'', PyStr (''t1'')),
        (''nome'', PyStr (''Ana Silva'')),
        (''habilidades'', PyStr (''Python, Machine Learning, An'' @ [CHR 0xE1] @ ''lise de Dados, SQL, Pandas, Scikit-learn'')),
        (''experiencia'', PyStr (''Cientista de Dados J'' @ [CHR 0xFA] @ ''nior com 2 anos de experi'' @ [CHR 0xEA] @ ''ncia em projetos de classifica'' @ [CHR 0xE7] @ [CHR 0xE3] @ ''o e regress'' @ [CHR 0xE3] @ ''o. Experi'' @ [CHR 0xEA] @ ''ncia com visualiza'' @ [CHR 0xE7] @ [CHR 0xE3] @ ''o de dados usando Matplotlib e Seaborn.''))],
      map_of [
        (''id'', PyStr (''t2'')),
        (''nome'', PyStr (''Bruno Costa'')),
        (''habilidades'', PyStr (''JavaScript, React, Node.js, HTML, CSS, MongoDB'')),
        (''experiencia'', PyStr (''Desenvolvedor Web Full-Stack com 5 anos de experi'' @ [CHR 0xEA] @ ''ncia na cria'' @ [CHR 0xE7] @ [CHR 0xE3] @ ''o de aplica'' @ [CHR 0xE7] @ [CHR 0xF5] @ ''es web responsivas e escal'' @ [CHR 0xE1] @ ''veis. Experi'' @ [CHR 0xEA] @ ''ncia com APIs RESTful.''))],
      map_of [
        (''id'', PyStr (''t3'')),
        (''nome'', PyStr (''Carla Dias'')),
        (''habilidades'', PyStr (''Java, Spring Boot, Microservi'' @ [CHR 0xE7] @ ''os, Docker, Kubernetes, AWS'')),
        (''experiencia'', PyStr (''Engenheira de Software S'' @ [CHR 0xEA] @ ''nior com 8 anos de experi'' @ [CHR 0xEA] @ ''ncia em desenvolvimento backend e arquitetura de sistemas distribu'' @ [CHR 0xED] @ ''dos. Foco em solu'' @ [CHR 0xE7] @ [CHR 0xF5] @ ''es cloud-native.''))],
      map_of [
        (''id'', PyStr (''t4'')),
        (''nome'', PyStr (''Daniel Souza'')),
        (''habilidades'', PyStr (''Python, Django, Flask, PostgreSQL, Testes Unit'' @ [CHR 0xE1] @ ''rios'')),
        (''experiencia'', PyStr (''Desenvolvedor Backend Pleno com 3 anos de experi'' @ [CHR 0xEA] @ ''ncia em desenvolvimento de APIs web com Python. Conhecimento em bancos de dados relacionais.''))]]"

definition vagas_exemplo :: "pydict list" where
  "vagas_exemplo =
     [
      map_of [
        (''id'', PyStr (''v1'')),
        (''titulo'', PyStr (''Cientista de Dados Pleno'')),
        (''empresa'', PyStr (''InovaTech'')),
        (''requisitos_habilidades'', PyStr (''Python, R, Machine Learning, Deep Learning, SQL, Spark'')),
        (''descricao'', PyStr (''Procuramos um Cientista de Dados para desenvolver modelos preditivos e analisar grandes volumes de dados. Necess'' @ [CHR 0xE1] @ ''rio experi'' @ [CHR 0xEA] @ ''ncia com bibliotecas como Scikit-learn, TensorFlow ou PyTorch.''))],
      map_of [
        (''id'', PyStr (''v2'')),
        (''titulo'', PyStr (''Desenvolvedor Frontend J'' @ [CHR 0xFA] @ ''nior'')),
        (''empresa'', PyStr (''WebSolu'' @ [CHR 0xE7] @ [CHR 0xF5] @ ''es'')),
        (''requisitos_habilidades'', PyStr (''HTML, CSS, JavaScript, React, Git'')),
        (''descricao'', PyStr (''Vaga para Desenvolvedor Frontend para atuar na cria'' @ [CHR 0xE7] @ [CHR 0xE3] @ ''o de interfaces de usu'' @ [CHR 0xE1] @ ''rio interativas e modernas. Desej'' @ [CHR 0xE1] @ ''vel conhecimento em algum framework JS como React ou Vue.''))],
      map_of [
        (''id'', PyStr (''v3'')),
        (''titulo'', PyStr (''Engenheiro de DevOps S'' @ [CHR 0xEA] @ ''nior'')),
        (''empresa'', PyStr (''CloudExperts'')),
        (''requisitos_habilidades'', PyStr (''AWS, Azure, Docker, Kubernetes, Terraform, CI/CD, Python'')),
        (''descricao'', PyStr (''Buscamos Engenheiro de DevOps experiente para automatizar infraestrutura e processos de deploy em ambiente de nuvem. Forte conhecimento em ferramentas de orquestra'' @ [CHR 0xE7] @ [CHR 0xE3] @ ''o e IaC.''))],
      map_of [
        (''id'', PyStr (''v4'')),
        (''titulo'', PyStr (''Desenvolvedor Python Backend'')),
        (''empresa'', PyStr (''CodeBuilders'')),
        (''requisitos_habilidades'', PyStr (''Python, Django, Flask, REST API, SQL, Docker'')),
        (''descricao'', PyStr (''Oportunidade para Desenvolvedor Python Backend para construir e manter APIs robustas e escal'' @ [CHR 0xE1] @ ''veis. Experi'' @ [CHR 0xEA] @ ''ncia com frameworks web e bancos de dados '' @ [CHR 0xE9] @ '' essencial.''))]]"

section \<open>Similarity scores\<close>

text \<open>
  An entry of the similarity matrix is a \<^verbatim>\<open>numpy.float64\<close>: not-a-number, an infinity,
  or a finite double, which is modelled by the real number it denotes (comparisons of
  finite doubles are exact, and the two zeros compare equal).  \<open>score_lt\<close> and
  \<open>score_le\<close> are the operators \<^verbatim>\<open><\<close> and \<^verbatim>\<open><=\<close>: every comparison with NaN
  is false.
\<close>

datatype score = NaN | NegInf | Fin real | PosInf

fun score_lt :: "score \<Rightarrow> score \<Rightarrow> bool" where
  "score_lt NaN _ = False"
| "score_lt _ NaN = False"
| "score_lt NegInf NegInf = False"
| "score_lt NegInf _ = True"
| "score_lt (Fin a) (Fin b) = (a < b)"
| "score_lt (Fin _) PosInf = True"
| "score_lt (Fin _) NegInf = False"
| "score_lt PosInf _ = False"

fun score_le :: "score \<Rightarrow> score \<Rightarrow> bool" where
  "score_le NaN _ = False"
| "score_le _ NaN = False"
| "score_le NegInf _ = True"
| "score_le (Fin a) (Fin b) = (a \<le> b)"
| "score_le (Fin _) PosInf = True"
| "score_le (Fin _) NegInf = False"
| "score_le PosInf PosInf = True"
| "score_le PosInf _ = False"

definition isnan :: "score \<Rightarrow> bool" where
  "isnan x = (x = NaN)"

text \<open>\<^verbatim>\<open>round(float(x), 4)\<close>: the value is rounded to four decimal places, ties to
  even, and NaN and the infinities are returned as they are.  The model keeps the exact
  decimal; Python returns the double nearest to it, which has the same sign and is zero
  exactly when the decimal is.\<close>

definition round_half_even :: "real \<Rightarrow> int" where
  "round_half_even y =
     (let f = \<lfloor>y\<rfloor>; d = y - of_int f
      in if d < 1 / 2 then f else if 1 / 2 < d then f + 1 else if even f then f else f + 1)"

fun py_round4 :: "score \<Rightarrow> score" where
  "py_round4 (Fin x) = Fin (of_int (round_half_even (x * 10000)) / 10000)"
| "py_round4 x = x"

subsection \<open>Sorting and slicing\<close>

text \<open>\<^verbatim>\<open>enumerate(row)\<close> as a list of (position, score) pairs.\<close>

definition enumerate_row :: "score list \<Rightarrow> (nat \<times> score) list" where
  "enumerate_row row = zip [0..<length row] row"

text \<open>
  \<^verbatim>\<open>sorted(pairs, key=lambda item: item[1], reverse=True)\<close>.  Python reverses the list,
  sorts it with a stable ascending sort that compares keys with \<^verbatim>\<open><\<close> only, and
  reverses the result.  Three cases are told apart.
  \<^item> No key is NaN.  The keys are totally ordered, every stable sort returns the same
    list, and the model is the stable insertion sort \<open>stable_sort_desc\<close>.
  \<^item> A key is NaN, and no pair has a smaller score than its successor.  Reversed, the
    list is a single ascending run for Python's sort, which returns a run as it is; the
    result is the list itself.
  \<^item> A key is NaN otherwise.  The comparisons are inconsistent, and the outcome depends
    on the sorting algorithm of the Python that runs the code.  The model takes it from
    its parameter, the function \<open>nan_sort\<close>, of which nothing is assumed.
\<close>

fun insort_lt :: "(nat \<times> score) \<Rightarrow> (nat \<times> score) list \<Rightarrow> (nat \<times> score) list" where
  "insort_lt x [] = [x]"
| "insort_lt x (y # ys) =
     (if score_lt (snd y) (snd x) then y # insort_lt x ys else x # y # ys)"

definition stable_sort_desc :: "(nat \<times> score) list \<Rightarrow> (nat \<times> score) list" where
  "stable_sort_desc xs = rev (foldr insort_lt (rev xs) [])"

definition single_run :: "(nat \<times> score) list \<Rightarrow> bool" where
  "single_run xs = successively (\<lambda>a b. \<not> score_lt (snd a) (snd b)) xs"

definition sorted_reverse ::
  "((nat \<times> score) list \<Rightarrow> (nat \<times> score) list) \<Rightarrow> (nat \<times> score) list
     \<Rightarrow> (nat \<times> score) list" where
  "sorted_reverse nan_sort xs =
     (if \<not> list_ex (\<lambda>p. isnan (snd p)) xs then stable_sort_desc xs
      else if single_run xs then xs
      else nan_sort xs)"

text \<open>The slice \<^verbatim>\<open>xs[:n]\<close> for an integer \<open>n\<close>: a negative \<open>n\<close> counts from the end.\<close>

definition slice_to :: "'a list \<Rightarrow> int \<Rightarrow> 'a list" where
  "slice_to xs n = (if 0 \<le> n then take (nat n) xs else take (length xs - nat (- n)) xs)"

section \<open>What the code takes from its libraries\<close>

text \<open>
  Three functions are not code of the module and are parameters of the model.
  \<^item> \<^verbatim>\<open>TfidfVectorizer.fit_transform\<close>: from the vectorizer's state and the documents to
    the new state and either the matrix of weights, a list of rows, or \<open>None\<close> when it
    raises \<^verbatim>\<open>ValueError\<close> (an empty vocabulary).
  \<^item> \<^verbatim>\<open>cosine_similarity\<close>: from the two blocks of rows to the matrix of scores, or
    \<open>None\<close> when it raises \<^verbatim>\<open>ValueError\<close>.  scikit-learn computes it in floating-point
    arithmetic, which is outside the model; nothing is assumed of its entries.
  \<^item> \<open>sorted_inconsistent\<close>: what Python's sort returns on keys that hold a NaN and are
    no single run (see \<open>sorted_reverse\<close>).
\<close>

record 'v externals =
  fit_transform :: "'v \<Rightarrow> string list \<Rightarrow> 'v \<times> real list list option"
  cosine_similarity :: "real list list \<Rightarrow> real list list \<Rightarrow> score list list option"
  sorted_inconsistent :: "(nat \<times> score) list \<Rightarrow> (nat \<times> score) list"

section \<open>The matcher's state\<close>

text \<open>
  The module keeps its data in globals: the two lists, the vectorizer, the cached matrices
  and the document lists.  The global \<^verbatim>\<open>matriz_similaridade_global\<close> holds
  \<^verbatim>\<open>None\<close>, or the array \<^verbatim>\<open>cosine_similarity\<close> returned (two-dimensional); the code
  also tests for an object that is no array and for a row that is no array, which a
  one-dimensional array would give, so both are values of the model.  What the functions
  print is kept as a list of messages.
\<close>

datatype ndarray = Arr1 "score list" | Arr2 "score list list"

datatype pymatrix = MNone | MOther | MArray ndarray

datatype message =
    Inicializando
  | ErroListasVazias
  | InicializadoComSucesso
  | ErroVetorizador
  | ErroMatrizNaoInicializada
  | ErroTrabalhadorNaoEncontrado string
  | ErroIndiceTrabalhador nat nat
  | ErroVetorInvalido string
  | AvisoIndiceVaga nat

record 'v matcher =
  trabalhadores :: "pydict list"
  vagas :: "pydict list"
  vectorizer :: 'v
  matriz_similaridade_global :: pymatrix
  tfidf_matrix_global :: "real list list option"
  docs_trabalhadores_global :: "string list"
  docs_vagas_global :: "string list"
  stdout :: "message list"

definition print :: "message \<Rightarrow> 'v matcher \<Rightarrow> 'v matcher" where
  "print m s = s\<lparr>stdout := stdout s @ [m]\<rparr>"

text \<open>
  \<^verbatim>\<open>
  def inicializar_matcher():
      print("Inicializando o matcher...")
      docs_trabalhadores_global = [criar_documento(t, 'trabalhador') for t in trabalhadores]
      docs_vagas_global = [criar_documento(v, 'vaga') for v in vagas]
      if not docs_trabalhadores_global or not docs_vagas_global:
          print("Erro: ...")
          return
      todos_docs = docs_trabalhadores_global + docs_vagas_global
      try:
          tfidf_matrix_global = vectorizer.fit_transform(todos_docs)
          tfidf_trabalhadores = tfidf_matrix_global[:len(docs_trabalhadores_global)]
          tfidf_vagas = tfidf_matrix_global[len(docs_trabalhadores_global):]
          matriz_similaridade_global = cosine_similarity(tfidf_trabalhadores, tfidf_vagas)
          print("Matcher inicializado com sucesso.")
      except ValueError as e:
          print(...)
          matriz_similaridade_global = None
  \<close>
\<close>

definition inicializar_matcher :: "'v externals \<Rightarrow> 'v matcher \<Rightarrow> 'v matcher" where
  "inicializar_matcher ext s0 =
     (let s1 = print Inicializando s0;
          s2 = s1\<lparr>docs_trabalhadores_global :=
                    map (\<lambda>t. criar_documento t (PyStr ''trabalhador'')) (trabalhadores s1)\<rparr>;
          s3 = s2\<lparr>docs_vagas_global :=
                    map (\<lambda>v. criar_documento v (PyStr ''vaga'')) (vagas s2)\<rparr>
      in if docs_trabalhadores_global s3 = [] \<or> docs_vagas_global s3 = []
         then print ErroListasVazias s3
         else
           (let todos_docs = docs_trabalhadores_global s3 @ docs_vagas_global s3
            in case fit_transform ext (vectorizer s3) todos_docs of
                 (vz, None) \<Rightarrow>
                   (print ErroVetorizador (s3\<lparr>vectorizer := vz\<rparr>))
                     \<lparr>matriz_similaridade_global := MNone\<rparr>
               | (vz, Some m) \<Rightarrow>
                   (let s4 = s3\<lparr>vectorizer := vz, tfidf_matrix_global := Some m\<rparr>;
                        tfidf_trabalhadores = take (length (docs_trabalhadores_global s4)) m;
                        tfidf_vagas = drop (length (docs_trabalhadores_global s4)) m
                    in case cosine_similarity ext tfidf_trabalhadores tfidf_vagas of
                         None \<Rightarrow>
                           (print ErroVetorizador s4)\<lparr>matriz_similaridade_global := MNone\<rparr>
                       | Some k \<Rightarrow>
                           print InicializadoComSucesso
                             (s4\<lparr>matriz_similaridade_global := MArray (Arr2 k)\<rparr>))))"

section \<open>The match ranker\<close>

datatype exception = KeyError string

datatype erro =
    FalhaInicializar
  | TrabalhadorNaoEncontrado string
  | IndiceForaDosLimites
  | VetorInvalido

record match =
  id_vaga :: pyval
  titulo_vaga :: pyval
  empresa :: pyval
  similaridade :: score

datatype retorno = Erro erro | Matches "match list"

text \<open>\<^verbatim>\<open>next(i for i, t in enumerate(trabalhadores) if t['id'] == id_trabalhador)\<close>:
  the position of the first worker with that id; \<open>Inr None\<close> is \<^verbatim>\<open>StopIteration\<close>, and
  a worker without the key \<^verbatim>\<open>'id'\<close>, met before a match, raises \<^verbatim>\<open>KeyError\<close>.\<close>

fun indice_trabalhador :: "pydict list \<Rightarrow> string \<Rightarrow> nat \<Rightarrow> exception + nat option" where
  "indice_trabalhador [] id_trabalhador i = Inr None"
| "indice_trabalhador (t # ts) id_trabalhador i =
     (case t ''id'' of
        None \<Rightarrow> Inl (KeyError ''id'')
      | Some v \<Rightarrow>
          if v = PyStr id_trabalhador then Inr (Some i)
          else indice_trabalhador ts id_trabalhador (Suc i))"

text \<open>The dictionary appended for a retained pair: the three fields are read from the
  job in the order of the literal, each raising \<^verbatim>\<open>KeyError\<close> when the key is absent.\<close>

definition entrada_match :: "pydict \<Rightarrow> score \<Rightarrow> exception + match" where
  "entrada_match vaga sim =
     (case vaga ''id'' of
        None \<Rightarrow> Inl (KeyError ''id'')
      | Some i \<Rightarrow>
         (case vaga ''titulo'' of
            None \<Rightarrow> Inl (KeyError ''titulo'')
          | Some t \<Rightarrow>
             (case vaga ''empresa'' of
                None \<Rightarrow> Inl (KeyError ''empresa'')
              | Some e \<Rightarrow>
                  Inr \<lparr>id_vaga = i, titulo_vaga = t, empresa = e,
                       similaridade = py_round4 sim\<rparr>)))"

text \<open>The loop over the truncated list of pairs (the body of the \<^verbatim>\<open>for\<close>), with the
  result list and the printed messages.\<close>

fun montar_resultado ::
  "pydict list \<Rightarrow> (nat \<times> score) list \<Rightarrow> match list \<Rightarrow> message list
     \<Rightarrow> (exception + match list) \<times> message list" where
  "montar_resultado vs [] resultado_matches out = (Inr resultado_matches, out)"
| "montar_resultado vs ((indice_vaga, sim) # rest) resultado_matches out =
     (if isnan sim \<or> score_le sim (Fin 0) then montar_resultado vs rest resultado_matches out
      else if indice_vaga < length vs then
        (case entrada_match (vs ! indice_vaga) sim of
           Inl e \<Rightarrow> (Inl e, out)
         | Inr m \<Rightarrow> montar_resultado vs rest (resultado_matches @ [m]) out)
      else montar_resultado vs rest resultado_matches (out @ [AvisoIndiceVaga indice_vaga]))"

definition as_ndarray :: "pymatrix \<Rightarrow> ndarray option" where
  "as_ndarray m = (case m of MArray a \<Rightarrow> Some a | _ \<Rightarrow> None)"

definition shape0 :: "ndarray \<Rightarrow> nat" where
  "shape0 a = (case a of Arr1 xs \<Rightarrow> length xs | Arr2 rows \<Rightarrow> length rows)"

text \<open>Lines 142 to 178 of \<^verbatim>\<open>encontrar_matches_para_trabalhador\<close>, reached with the
  matrix \<open>a\<close> being an array.\<close>

definition buscar_matches ::
  "'v externals \<Rightarrow> 'v matcher \<Rightarrow> ndarray \<Rightarrow> string \<Rightarrow> int
     \<Rightarrow> (exception + retorno) \<times> 'v matcher" where
  "buscar_matches ext s a id_trabalhador top_n =
     (case indice_trabalhador (trabalhadores s) id_trabalhador 0 of
        Inl e \<Rightarrow> (Inl e, s)
      | Inr None \<Rightarrow>
          (Inr (Erro (TrabalhadorNaoEncontrado id_trabalhador)),
           print (ErroTrabalhadorNaoEncontrado id_trabalhador) s)
      | Inr (Some indice) \<Rightarrow>
          if shape0 a \<le> indice
          then (Inr (Erro IndiceForaDosLimites), print (ErroIndiceTrabalhador indice (shape0 a)) s)
          else
            (case a of
               Arr1 xs \<Rightarrow> (Inr (Erro VetorInvalido), print (ErroVetorInvalido id_trabalhador) s)
             | Arr2 rows \<Rightarrow>
                 (let similaridades_vagas = rows ! indice;
                      matches_ordenados =
                        sorted_reverse (sorted_inconsistent ext)
                          (enumerate_row similaridades_vagas)
                  in case montar_resultado (vagas s) (slice_to matches_ordenados top_n) []
                            (stdout s) of
                       (Inl e, out) \<Rightarrow> (Inl e, s\<lparr>stdout := out\<rparr>)
                     | (Inr ms, out) \<Rightarrow> (Inr (Matches ms), s\<lparr>stdout := out\<rparr>))))"

text \<open>
  \<^verbatim>\<open>
  def encontrar_matches_para_trabalhador(id_trabalhador, top_n=3):
      if matriz_similaridade_global is None or not isinstance(matriz_similaridade_global, np.ndarray):
          print("Erro: Matriz de similaridade ...")
          inicializar_matcher()
          if matriz_similaridade_global is None or not isinstance(matriz_similaridade_global, np.ndarray):
               return {"erro": "Falha ao inicializar a matriz de similaridade."}
      ...
  \<close>
\<close>

definition encontrar_matches_para_trabalhador ::
  "'v externals \<Rightarrow> 'v matcher \<Rightarrow> string \<Rightarrow> int \<Rightarrow> (exception + retorno) \<times> 'v matcher" where
  "encontrar_matches_para_trabalhador ext s id_trabalhador top_n =
     (case as_ndarray (matriz_similaridade_global s) of
        Some a \<Rightarrow> buscar_matches ext s a id_trabalhador top_n
      | None \<Rightarrow>
          (let s1 = inicializar_matcher ext (print ErroMatrizNaoInicializada s)
           in case as_ndarray (matriz_similaridade_global s1) of
                None \<Rightarrow> (Inr (Erro FalhaInicializar), s1)
              | Some a \<Rightarrow> buscar_matches ext s1 a id_trabalhador top_n))"

section \<open>Notions used to state the properties\<close>





text \<open>The state in which the lookup of a call runs: the state of the call when the
  cached matrix is an array, and the state after the re-initialization otherwise.\<close>

definition estado_de_busca :: "'v externals \<Rightarrow> 'v matcher \<Rightarrow> 'v matcher" where
  "estado_de_busca ext s =
     (case as_ndarray (matriz_similaridade_global s) of
        Some a \<Rightarrow> s
      | None \<Rightarrow> inicializar_matcher ext (print ErroMatrizNaoInicializada s))"

text \<open>The row of the cached matrix that a call reads for a worker id, when there is one.\<close>

definition linha_do_trabalhador :: "'v matcher \<Rightarrow> string \<Rightarrow> score list option" where
  "linha_do_trabalhador s id_trabalhador =
     (case matriz_similaridade_global s of
        MArray (Arr2 rows) \<Rightarrow>
          (case indice_trabalhador (trabalhadores s) id_trabalhador 0 of
             Inr (Some i) \<Rightarrow> if i < length rows then Some (rows ! i) else None
           | _ \<Rightarrow> None)
      | _ \<Rightarrow> None)"


text \<open>How often the initialization routine was entered, read off the printed messages.\<close>

definition inicializacoes :: "message list \<Rightarrow> nat" where
  "inicializacoes out = length (filter (\<lambda>m. m = Inicializando) out)"

section \<open>Concrete states\<close>

text \<open>The module's state with the sample lists and a given cached matrix, before anything
  was printed; and library functions whose vectorizer raises \<^verbatim>\<open>ValueError\<close> on every
  corpus.  With them the similarity function is never called, and the calls evaluated
  below never sort a row that holds a NaN and is no single run.\<close>

definition estado_exemplo :: "pymatrix \<Rightarrow> unit matcher" where
  "estado_exemplo m =
     \<lparr>trabalhadores = trabalhadores_exemplo, vagas = vagas_exemplo, vectorizer = (),
      matriz_similaridade_global = m, tfidf_matrix_global = None,
      docs_trabalhadores_global = [], docs_vagas_global = [], stdout = []\<rparr>"

definition externals_exemplo :: "unit externals" where
  "externals_exemplo =
     \<lparr>fit_transform = (\<lambda>v docs. (v, None)),
      cosine_similarity = (\<lambda>X Y. None),
      sorted_inconsistent = (\<lambda>xs. xs)\<rparr>"

section \<open>Properties of the text normalizer\<close>

lemma space_non_word: "is_space c \<Longrightarrow> non_word c"
  by (auto simp: is_space_def non_word_def is_word_def Let_def)

lemma sp_is_space [simp]: "is_space CHR '' ''" by (simp add: is_space_def)
lemma sp_non_word [simp]: "non_word CHR '' ''" by (simp add: space_non_word)
lemma sp_not_word [simp]: "\<not> is_word CHR '' ''" using sp_non_word by (simp add: non_word_def)

lemma hd_dropWhile_nw: "dropWhile non_word s = [] \<or> is_word (hd (dropWhile non_word s))"
  using hd_dropWhile[of non_word s] by (auto simp: non_word_def)

lemma sub_nw_hd: "s = [] \<or> is_word (hd s) \<Longrightarrow> re_sub_runs non_word s = [] \<or> is_word (hd (re_sub_runs non_word s))"
  by (cases s) (auto simp: non_word_def)

lemma dropWhile_space_id: "s = [] \<or> is_word (hd s) \<Longrightarrow> dropWhile is_space s = s"
  using space_non_word by (cases s) (auto simp: non_word_def)

lemma sub_space_sub_nw: "re_sub_runs is_space (re_sub_runs non_word s) = re_sub_runs non_word s"
proof (induction non_word s rule: re_sub_runs.induct)
  case 1
  then show ?case by simp
next
  case (2 c cs)
  show ?case
  proof (cases "non_word c")
    case True
    have "dropWhile is_space (re_sub_runs non_word (dropWhile non_word cs)) = re_sub_runs non_word (dropWhile non_word cs)"
      by (rule dropWhile_space_id, rule sub_nw_hd, rule hd_dropWhile_nw)
    with True 2 show ?thesis by simp
  next
    case False
    then have "\<not> is_space c" using space_non_word by blast
    with False 2 show ?thesis by simp
  qed
qed


lemma sub_nw_words: "\<forall>c\<in>set w. is_word c \<Longrightarrow> re_sub_runs non_word (w @ r) = w @ re_sub_runs non_word r"
  by (induction w) (auto simp: non_word_def)

lemma word_runs_skip: "word_runs (dropWhile non_word s) = word_runs s"
  by (induction s) (auto simp: non_word_def)

lemma word_runs_nonempty: "s \<noteq> [] \<Longrightarrow> is_word (hd s) \<Longrightarrow> word_runs s \<noteq> []"
  by (cases s) auto

lemma join_sp_Cons: "ws \<noteq> [] \<Longrightarrow> join_sp (w # ws) = w @ CHR '' '' # join_sp ws"
  by (cases ws) auto

lemma sub_nw_tokens:
  "s = [] \<or> is_word (hd s) \<Longrightarrow>
   \<exists>t. re_sub_runs non_word s = join_sp (word_runs s) @ t \<and> (t = [] \<or> t = [CHR '' ''])"
proof (induction "length s" arbitrary: s rule: less_induct)
  case less
  show ?case
  proof (cases s)
    case Nil
    then show ?thesis by simp
  next
    case (Cons c cs)
    with less.prems have cw: "is_word c" by simp
    define w where "w = takeWhile is_word (c # cs)"
    define r where "r = dropWhile is_word (c # cs)"
    have s_eq: "s = w @ r" by (simp add: w_def r_def Cons del: takeWhile.simps dropWhile.simps)
    have w_words: "\<forall>x\<in>set w. is_word x" unfolding w_def by (metis set_takeWhileD)
    have wr: "word_runs s = w # word_runs r"
      using cw by (simp add: Cons w_def r_def)
    have sub: "re_sub_runs non_word s = w @ re_sub_runs non_word r"
      unfolding s_eq by (rule sub_nw_words[OF w_words])
    show ?thesis
    proof (cases r)
      case Nil
      with sub wr show ?thesis by simp
    next
      case (Cons n r')
      have "\<not> is_word (hd r)" unfolding r_def using hd_dropWhile[of is_word "c # cs"] Cons r_def by auto
      then have nn: "non_word n" using Cons by (simp add: non_word_def)
      define s2 where "s2 = dropWhile non_word r'"
      have subr: "re_sub_runs non_word r = CHR '' '' # re_sub_runs non_word s2"
        using nn by (simp add: Cons s2_def)
      have wr2: "word_runs r = word_runs s2"
        using word_runs_skip[of r] nn by (simp add: Cons s2_def)
      have len: "length s2 < length s"
        unfolding s2_def s_eq Cons using length_dropWhile_le[of non_word r'] by simp
      have hd2: "s2 = [] \<or> is_word (hd s2)" unfolding s2_def by (rule hd_dropWhile_nw)
      from less.hyps[OF len hd2] obtain t where
        t: "re_sub_runs non_word s2 = join_sp (word_runs s2) @ t" "t = [] \<or> t = [CHR '' '']" by blast
      show ?thesis
      proof (cases "s2 = []")
        case True
        then show ?thesis using sub subr wr wr2 by simp
      next
        case False
        with hd2 have "word_runs s2 \<noteq> []" by (simp add: word_runs_nonempty)
        then have "join_sp (word_runs s) = w @ CHR '' '' # join_sp (word_runs s2)"
          by (simp add: wr wr2 join_sp_Cons)
        with sub subr t show ?thesis by auto
      qed
    qed
  qed
qed


lemma lstrip_sub_nw:
  "dropWhile is_space (re_sub_runs non_word s) = re_sub_runs non_word (dropWhile non_word s)"
proof (cases s)
  case Nil
  then show ?thesis by simp
next
  case (Cons c cs)
  show ?thesis
  proof (cases "non_word c")
    case True
    have "dropWhile is_space (re_sub_runs non_word (dropWhile non_word cs)) = re_sub_runs non_word (dropWhile non_word cs)"
      by (rule dropWhile_space_id, rule sub_nw_hd, rule hd_dropWhile_nw)
    with True show ?thesis by (simp add: Cons)
  next
    case False
    then have "\<not> is_space c" using space_non_word by blast
    with False show ?thesis by (simp add: Cons)
  qed
qed

lemma word_runs_tokens: "list_all word_token (word_runs s)"
proof (induction s rule: word_runs.induct)
  case 1
  then show ?case by simp
next
  case (2 c cs)
  have "list_all is_word (takeWhile is_word cs)"
    by (simp add: list_all_iff) (metis set_takeWhileD)
  with 2 show ?case by (simp add: word_token_def)
qed

lemma join_sp_last: "list_all word_token ws \<Longrightarrow> ws \<noteq> [] \<Longrightarrow> join_sp ws \<noteq> [] \<and> is_word (last (join_sp ws))"
proof (induction ws rule: join_sp.induct)
  case 1
  then show ?case by simp
next
  case (2 w)
  then show ?case by (auto simp: word_token_def list_all_iff)
next
  case (3 w v va)
  then show ?case by simp
qed

lemma join_sp_hd: "list_all word_token ws \<Longrightarrow> ws \<noteq> [] \<Longrightarrow> is_word (hd (join_sp ws))"
  by (induction ws rule: join_sp.induct) (auto simp: word_token_def list_all_iff)

lemma join_sp_Nil_iff: "list_all word_token ws \<Longrightarrow> join_sp ws = [] \<longleftrightarrow> ws = []"
  using join_sp_last by (cases ws) auto

lemma rstrip_join:
  assumes "list_all word_token ws" and "t = [] \<or> t = [CHR '' '']"
  shows "rev (dropWhile is_space (rev (join_sp ws @ t))) = join_sp ws"
proof (cases "ws = []")
  case True
  with assms(2) show ?thesis by auto
next
  case False
  with join_sp_last[OF assms(1)] have ne: "join_sp ws \<noteq> []" and lw: "is_word (last (join_sp ws))" by auto
  then have "\<not> is_space (hd (rev (join_sp ws)))"
    using space_non_word by (auto simp: hd_rev non_word_def)
  then have "dropWhile is_space (rev (join_sp ws)) = rev (join_sp ws)"
    using ne by (cases "rev (join_sp ws)") auto
  with assms(2) show ?thesis by auto
qed

lemma preprocessar_texto_tokens:
  "preprocessar_texto (PyStr t) = join_sp (word_runs (str_lower t))"
proof -
  let ?s = "str_lower t"
  let ?s' = "dropWhile non_word ?s"
  have "s = [] \<or> is_word (hd s)" if "s = ?s'" for s using that hd_dropWhile_nw by simp
  from sub_nw_tokens[OF this[OF refl]] obtain u where
    u: "re_sub_runs non_word ?s' = join_sp (word_runs ?s') @ u" "u = [] \<or> u = [CHR '' '']" by blast
  have "preprocessar_texto (PyStr t) = rev (dropWhile is_space (rev (re_sub_runs non_word ?s')))"
    by (simp add: str_strip_def sub_space_sub_nw lstrip_sub_nw)
  also have "\<dots> = join_sp (word_runs ?s')"
    unfolding u(1) by (rule rstrip_join[OF word_runs_tokens u(2)])
  finally show ?thesis by (simp add: word_runs_skip)
qed


lemma re_sub_runs_keep:
  "\<forall>c\<in>set w. \<not> P c \<Longrightarrow> re_sub_runs P (w @ r) = w @ re_sub_runs P r"
  by (induction w) auto

lemma re_sub_runs_replace: "re_sub_runs P s = replace_runs P s"
proof (induction P s rule: runs.induct)
  case (1 P)
  then show ?case by (simp add: replace_runs_def)
next
  case (2 P c cs)
  show ?case
  proof (cases "P c")
    case True
    with 2 show ?thesis by (simp add: replace_runs_def)
  next
    case False
    let ?w = "takeWhile (\<lambda>x. \<not> P x) (c # cs)"
    let ?r = "dropWhile (\<lambda>x. \<not> P x) (c # cs)"
    have w: "\<forall>x\<in>set ?w. \<not> P x" by (metis (mono_tags, lifting) set_takeWhileD)
    have "re_sub_runs P (?w @ ?r) = ?w @ re_sub_runs P ?r"
      by (rule re_sub_runs_keep[OF w])
    then have "re_sub_runs P (c # cs) = ?w @ re_sub_runs P ?r"
      by (simp only: takeWhile_dropWhile_id)
    with False 2 show ?thesis by (simp add: replace_runs_def)
  qed
qed

lemma normalizer_refines: "preprocessar_texto v = normalize_spec v"
  by (cases v) (simp_all add: normalize_spec_def trim_def str_strip_def str_lower_def re_sub_runs_replace)

lemma lower_cp_idem: "lower_cp (lower_cp c) = lower_cp c"
  by (auto simp: lower_cp_def is_upper_cp_def Let_def)

lemma lower_sp [simp]: "lower_cp CHR '' '' = CHR '' ''"
  by (simp add: lower_cp_def is_upper_cp_def)

lemma set_word_runs: "x \<in> set (word_runs s) \<Longrightarrow> set x \<subseteq> set s"
proof (induction s rule: word_runs.induct)
  case 1
  then show ?case by simp
next
  case (2 c cs)
  show ?case
  proof (cases "is_word c")
    case True
    with 2 show ?thesis
      by (auto dest: set_takeWhileD set_dropWhileD split: if_splits)
  next
    case False
    with 2 show ?thesis by auto
  qed
qed

lemma set_join_sp: "set (join_sp ws) \<subseteq> \<Union>(set ` set ws) \<union> {CHR '' ''}"
  by (induction ws rule: join_sp.induct) auto

lemma lower_join_tokens: "str_lower (join_sp (word_runs (str_lower t))) = join_sp (word_runs (str_lower t))"
proof -
  have "lower_cp c = c" if "c \<in> set (join_sp (word_runs (str_lower t)))" for c
  proof -
    from that set_join_sp have "c = CHR '' '' \<or> (\<exists>w\<in>set (word_runs (str_lower t)). c \<in> set w)" by fastforce
    then show ?thesis
    proof
      assume "c = CHR '' ''" then show ?thesis by simp
    next
      assume "\<exists>w\<in>set (word_runs (str_lower t)). c \<in> set w"
      then have "c \<in> set (str_lower t)" using set_word_runs by blast
      then show ?thesis by (auto simp: str_lower_def lower_cp_idem)
    qed
  qed
  then show ?thesis unfolding str_lower_def by (simp add: map_idI)
qed

lemma word_runs_token_append:
  assumes "word_token w" "\<not> is_word n"
  shows "word_runs (w @ n # r) = w # word_runs r"
proof -
  from assms(1) obtain c cs where w: "w = c # cs" and c: "is_word c" and cs: "\<forall>x\<in>set cs. is_word x"
    by (cases w) (auto simp: word_token_def list_all_iff)
  have "takeWhile is_word (cs @ n # r) = cs" using cs assms(2) by (simp add: takeWhile_tail)
  moreover have "dropWhile is_word (cs @ n # r) = n # r" using cs assms(2) by (simp add: dropWhile_append3)
  ultimately show ?thesis using c assms(2) by (simp add: w)
qed

lemma word_runs_token: "word_token w \<Longrightarrow> word_runs w = [w]"
proof -
  assume a: "word_token w"
  then obtain c cs where w: "w = c # cs" and c: "is_word c" and cs: "\<forall>x\<in>set cs. is_word x"
    by (cases w) (auto simp: word_token_def list_all_iff)
  have t: "takeWhile is_word cs = cs" using cs by (simp add: takeWhile_eq_all_conv)
  have d: "dropWhile is_word cs = []" using cs by simp
  show ?thesis by (simp add: w c t d)
qed

lemma word_runs_join: "list_all word_token ws \<Longrightarrow> word_runs (join_sp ws) = ws"
  by (induction ws rule: join_sp.induct) (auto simp: word_runs_token word_runs_token_append)


lemma last_dropWhile: "dropWhile P xs \<noteq> [] \<Longrightarrow> last (dropWhile P xs) = last xs"
  by (induction xs) (auto split: if_splits)

lemma str_strip_ends:
  assumes "str_strip z \<noteq> []"
  shows "\<not> is_space (hd (str_strip z))" and "\<not> is_space (last (str_strip z))"
proof -
  let ?y = "dropWhile is_space z"
  let ?D = "dropWhile is_space (rev ?y)"
  from assms have D: "?D \<noteq> []" by (simp add: str_strip_def)
  have y: "?y \<noteq> []"
  proof
    assume "?y = []"
    then have "?D = []" by (simp only: rev.simps dropWhile.simps)
    with D show False by simp
  qed
  have "\<not> is_space (hd ?D)" using hd_dropWhile[OF D] .
  then show "\<not> is_space (last (str_strip z))"
    using D by (simp add: str_strip_def last_rev)
  have "last ?D = last (rev ?y)" by (rule last_dropWhile[OF D])
  also have "\<dots> = hd ?y" using y by (simp only: last_rev)
  finally have "hd (str_strip z) = hd ?y" using D by (simp only: str_strip_def hd_rev)
  moreover have "\<not> is_space (hd ?y)" using hd_dropWhile[OF y] .
  ultimately show "\<not> is_space (hd (str_strip z))" by simp
qed

lemma str_strip_fixed:
  assumes "b \<noteq> []" "\<not> is_space (hd b)" "\<not> is_space (last b)"
  shows "str_strip b = b"
proof -
  have 1: "dropWhile is_space b = b" using assms(1,2) by (cases b) auto
  have "rev b \<noteq> []" "\<not> is_space (hd (rev b))" using assms(1,3) by (simp_all add: hd_rev)
  then have 2: "dropWhile is_space (rev b) = rev b" by (cases "rev b") auto
  show ?thesis by (simp add: str_strip_def 1 2)
qed

lemma str_strip_space_Cons: "is_space c \<Longrightarrow> str_strip (c # b) = str_strip b"
  by (simp add: str_strip_def)

lemma preprocessar_texto_ends:
  assumes "preprocessar_texto v \<noteq> []"
  shows "\<not> is_space (hd (preprocessar_texto v))" and "\<not> is_space (last (preprocessar_texto v))"
  using assms str_strip_ends by (cases v; simp)+

text \<open>
  C5.  A value that is no string normalises to the empty string.  A string normalises to
  what the specification describes (lowercased, each maximal run of non-word characters
  replaced by one space, runs of whitespace collapsed, trimmed), which is the sequence of
  its lowercased word runs separated by single spaces.  The two examples of the
  specification hold.
\<close>

theorem preprocessar_texto_contract:
  "preprocessar_texto PyNone = []
   \<and> preprocessar_texto (PyInt n) = []
   \<and> preprocessar_texto (PyStr t) = normalize_spec (PyStr t)
   \<and> preprocessar_texto (PyStr t) = join_sp (word_runs (str_lower t))
   \<and> preprocessar_texto (PyStr ''Python, ML!!  2023'') = ''python ml 2023''"
proof -
  have "preprocessar_texto (PyStr ''Python, ML!!  2023'') = ''python ml 2023''"
    by code_simp
  then show ?thesis
    using normalizer_refines[of "PyStr t"] preprocessar_texto_tokens[of t] by simp
qed

theorem preprocessar_texto_contract_witness:
  "preprocessar_texto (PyInt 7) = []
   \<and> normalize_spec (PyStr ''Ab,  c_1 '') = ''ab c_1''"
proof -
  have "preprocessar_texto (PyStr ''Ab,  c_1 '') = ''ab c_1''"
    by code_simp
  then show ?thesis
    using preprocessar_texto_contract[of 7 "''Ab,  c_1 ''"] by simp
qed

text \<open>
  C6.  The normalizer is idempotent: normalising its own result changes nothing, for
  every input value.
\<close>

theorem preprocessar_texto_idempotent:
  "preprocessar_texto (PyStr (preprocessar_texto x)) = preprocessar_texto x"
proof (cases x)
  case (PyStr t)
  let ?j = "join_sp (word_runs (str_lower t))"
  have "preprocessar_texto (PyStr ?j) = ?j"
    unfolding preprocessar_texto_tokens
    by (simp add: lower_join_tokens word_runs_join word_runs_tokens)
  then show ?thesis
    by (simp add: PyStr preprocessar_texto_tokens del: preprocessar_texto.simps)
qed (simp_all add: str_strip_def str_lower_def)

theorem preprocessar_texto_idempotent_witness:
  "preprocessar_texto (PyStr ''Python, ML!!  2023'') = ''python ml 2023''
   \<and> preprocessar_texto (PyStr ''python ml 2023'') = ''python ml 2023''"
proof -
  have "preprocessar_texto (PyStr ''Python, ML!!  2023'') = ''python ml 2023''"
    by code_simp
  then show ?thesis
    using preprocessar_texto_idempotent[of "PyStr ''Python, ML!!  2023''"] by simp
qed

section \<open>Properties of the document builder\<close>

text \<open>
  C7.  For a worker whose skills normalise to the empty string and whose experience
  normalises to a non-empty string, the document is exactly the normalised experience,
  and it neither starts nor ends with whitespace.  For a kind that is neither
  \<^verbatim>\<open>'trabalhador'\<close> nor \<^verbatim>\<open>'vaga'\<close> the document is empty.
\<close>

theorem criar_documento_experience_only:
  "(preprocessar_texto (dict_get item ''habilidades'' (PyStr [])) = []
      \<and> preprocessar_texto (dict_get item ''experiencia'' (PyStr [])) \<noteq> []
    \<longrightarrow> criar_documento item (PyStr ''trabalhador'')
          = preprocessar_texto (dict_get item ''experiencia'' (PyStr []))
        \<and> \<not> is_space (hd (criar_documento item (PyStr ''trabalhador'')))
        \<and> \<not> is_space (last (criar_documento item (PyStr ''trabalhador''))))
   \<and> (tipo \<noteq> PyStr ''trabalhador'' \<and> tipo \<noteq> PyStr ''vaga''
    \<longrightarrow> criar_documento other tipo = [])"
proof (intro conjI impI)
  assume a: "preprocessar_texto (dict_get item ''habilidades'' (PyStr [])) = []
      \<and> preprocessar_texto (dict_get item ''experiencia'' (PyStr [])) \<noteq> []"
  let ?e = "preprocessar_texto (dict_get item ''experiencia'' (PyStr []))"
  from a have ne: "?e \<noteq> []" by simp
  have ends: "\<not> is_space (hd ?e)" "\<not> is_space (last ?e)"
    using preprocessar_texto_ends[OF ne] by simp_all
  have "criar_documento item (PyStr ''trabalhador'') = str_strip (CHR '' '' # ?e)"
    using a by (simp add: criar_documento_def)
  also have "\<dots> = str_strip ?e" by (simp add: str_strip_space_Cons)
  also have "\<dots> = ?e" using str_strip_fixed[OF ne ends] .
  finally show eq: "criar_documento item (PyStr ''trabalhador'') = ?e" .
  show "\<not> is_space (hd (criar_documento item (PyStr ''trabalhador'')))"
    unfolding eq by (rule ends(1))
  show "\<not> is_space (last (criar_documento item (PyStr ''trabalhador'')))"
    unfolding eq by (rule ends(2))
next
  assume "tipo \<noteq> PyStr ''trabalhador'' \<and> tipo \<noteq> PyStr ''vaga''"
  then show "criar_documento other tipo = []" by (simp add: criar_documento_def)
qed

theorem criar_documento_experience_only_witness:
  "criar_documento (map_of [(''id'', PyStr ''t9''), (''habilidades'', PyStr ''?!''),
       (''experiencia'', PyStr '' Java  Dev. '')]) (PyStr ''trabalhador'') = ''java dev''
   \<and> criar_documento (map_of [(''id'', PyStr ''t9'')]) (PyStr ''empresa'') = []"
proof -
  let ?item = "map_of [(''id'', PyStr ''t9''), (''habilidades'', PyStr ''?!''),
       (''experiencia'', PyStr '' Java  Dev. '')]"
  have h: "preprocessar_texto (dict_get ?item ''habilidades'' (PyStr [])) = []"
    by code_simp
  have e: "preprocessar_texto (dict_get ?item ''experiencia'' (PyStr [])) = ''java dev''"
    by code_simp
  show ?thesis
    using criar_documento_experience_only
      [of ?item "PyStr ''empresa''" "map_of [(''id'', PyStr ''t9'')]"] h e
    by simp
qed
section \<open>Properties of the comparison, the sort and the slice\<close>


lemma score_lt_irrefl: "\<not> score_lt a a"
  by (cases a) auto



lemma score_lt_le_trans: "score_lt a b \<Longrightarrow> score_le b c \<Longrightarrow> score_lt a c"
  by (cases a; cases b; cases c) auto






lemma length_insort_lt: "length (insort_lt x ys) = Suc (length ys)"
  by (induction ys) auto





lemma length_stable_sort_desc: "length (stable_sort_desc xs) = length xs"
proof -
  have "length (foldr insort_lt ys []) = length ys" for ys
    by (induction ys) (auto simp: length_insort_lt)
  then show ?thesis by (simp add: stable_sort_desc_def)
qed












lemma slice_to_nonneg: "0 \<le> n \<Longrightarrow> slice_to xs n = take (nat n) xs"
  by (simp add: slice_to_def)



text \<open>On a single run the stable sort returns the list as it is, whether or not it
  holds a NaN: the first two cases of \<open>sorted_reverse\<close> agree where they overlap.\<close>

lemma foldr_insort_lt_run:
  "successively (\<lambda>a b. \<not> score_lt (snd b) (snd a)) xs \<Longrightarrow> foldr insort_lt xs [] = xs"
proof (induction xs)
  case Nil
  then show ?case by simp
next
  case (Cons a xs)
  then have ih: "foldr insort_lt xs [] = xs" by (cases xs) auto
  show ?case
  proof (cases xs)
    case Nil
    then show ?thesis by simp
  next
    case (Cons b ys)
    with Cons.prems have "\<not> score_lt (snd b) (snd a)" by simp
    then show ?thesis using ih Cons by simp
  qed
qed

lemma stable_sort_desc_run: "single_run xs \<Longrightarrow> stable_sort_desc xs = xs"
proof -
  assume "single_run xs"
  then have "successively (\<lambda>a b. \<not> score_lt (snd b) (snd a)) (rev xs)"
    by (simp add: single_run_def successively_rev)
  then show ?thesis by (simp add: stable_sort_desc_def foldr_insort_lt_run)
qed

lemma sorted_reverse_run: "single_run xs \<Longrightarrow> sorted_reverse nan_sort xs = xs"
  by (simp add: sorted_reverse_def stable_sort_desc_run)
section \<open>Properties of the loop and of the rounding\<close>






lemma montar_resultado_stdout:
  "inicializacoes (snd (montar_resultado vs ps acc out)) = inicializacoes out"
  by (induction vs ps acc out rule: montar_resultado.induct)
     (auto simp: inicializacoes_def split: sum.splits)











section \<open>Properties of the state transformers\<close>

lemma inicializacoes_append:
  "inicializacoes (xs @ ys) = inicializacoes xs + inicializacoes ys"
  "inicializacoes (m # ys) = (if m = Inicializando then Suc (inicializacoes ys) else inicializacoes ys)"
  "inicializacoes [] = 0"
  by (simp_all add: inicializacoes_def)


lemma inicializar_matcher_stdout:
  "inicializacoes (stdout (inicializar_matcher ext s)) = Suc (inicializacoes (stdout s))"
  by (auto simp: inicializar_matcher_def print_def Let_def inicializacoes_append
      split: prod.splits option.splits)

lemma buscar_matches_frame:
  assumes "buscar_matches ext s a wid n = (r, s')"
  shows "trabalhadores s' = trabalhadores s" "vagas s' = vagas s"
    "vectorizer s' = vectorizer s"
    "matriz_similaridade_global s' = matriz_similaridade_global s"
    "tfidf_matrix_global s' = tfidf_matrix_global s"
    "docs_trabalhadores_global s' = docs_trabalhadores_global s"
    "docs_vagas_global s' = docs_vagas_global s"
  using assms
  by (auto simp: buscar_matches_def print_def Let_def
      split: sum.splits option.splits if_splits ndarray.splits prod.splits)

lemma buscar_matches_stdout:
  "inicializacoes (stdout (snd (buscar_matches ext s a wid n))) = inicializacoes (stdout s)"
proof -
  have m: "inicializacoes out' = inicializacoes (stdout s)"
    if "montar_resultado vs ps [] (stdout s) = (r, out')" for vs ps r out'
    using montar_resultado_stdout[of vs ps "[]" "stdout s"] that by simp
  show ?thesis
    unfolding buscar_matches_def Let_def
    by (auto simp: print_def inicializacoes_append
        split: sum.splits option.splits ndarray.splits prod.splits dest: m)
qed

lemma buscar_matches_Matches:
  assumes "buscar_matches ext s a wid n = (Inr (Matches ms), s')"
    and "as_ndarray (matriz_similaridade_global s) = Some a"
  shows "\<exists>row. linha_do_trabalhador s' wid = Some row
           \<and> fst (montar_resultado (vagas s') (slice_to (sorted_reverse (sorted_inconsistent ext) (enumerate_row row)) n) []
                  (stdout s)) = Inr ms"
proof -
  from assms(2) have m: "matriz_similaridade_global s = MArray a"
    by (auto simp: as_ndarray_def split: pymatrix.splits)
  note fr = buscar_matches_frame[OF assms(1)]
  from assms(1) obtain i rows where
    i: "indice_trabalhador (trabalhadores s) wid 0 = Inr (Some i)" and
    a: "a = Arr2 rows" and il: "i < length rows" and
    mr: "fst (montar_resultado (vagas s) (slice_to (sorted_reverse (sorted_inconsistent ext) (enumerate_row (rows ! i))) n)
            [] (stdout s)) = Inr ms"
    by (auto simp: buscar_matches_def Let_def shape0_def
        split: sum.splits option.splits if_splits ndarray.splits prod.splits)
  have "linha_do_trabalhador s' wid = Some (rows ! i)"
    by (simp add: linha_do_trabalhador_def fr m a i il)
  then show ?thesis using mr fr by auto
qed

lemma encontrar_Matches:
  assumes "encontrar_matches_para_trabalhador ext s wid n = (Inr (Matches ms), s')"
  shows "\<exists>s1 a. as_ndarray (matriz_similaridade_global s1) = Some a
           \<and> buscar_matches ext s1 a wid n = (Inr (Matches ms), s')"
  using assms
  by (auto simp: encontrar_matches_para_trabalhador_def Let_def split: option.splits)
section \<open>The match ranker: what a call returns\<close>



lemma matriz_estado_exemplo: "matriz_similaridade_global (estado_exemplo m) = m"
  by (simp add: estado_exemplo_def)

lemma encontrar_estado_de_busca:
  "encontrar_matches_para_trabalhador ext s wid n =
     (case as_ndarray (matriz_similaridade_global (estado_de_busca ext s)) of
        None \<Rightarrow> (Inr (Erro FalhaInicializar), estado_de_busca ext s)
      | Some a \<Rightarrow> buscar_matches ext (estado_de_busca ext s) a wid n)"
  by (simp add: encontrar_matches_para_trabalhador_def estado_de_busca_def Let_def
      split: option.splits)











section \<open>The match ranker: failures, retry and frame\<close>







lemma estado_exemplo_campos:
  "trabalhadores (estado_exemplo m) = trabalhadores_exemplo"
  "vagas (estado_exemplo m) = vagas_exemplo"
  "vectorizer (estado_exemplo m) = ()"
  "tfidf_matrix_global (estado_exemplo m) = None"
  "stdout (estado_exemplo m) = []"
  by (simp_all add: estado_exemplo_def)

text \<open>
  C3.  A call that finds the cached matrix absent or no array runs the initialization
  routine exactly once: the lookup state is the state after one run of
  \<open>inicializar_matcher\<close>, and the call adds exactly one entry message of that routine to
  the output.  When the matrix is still absent or no array afterwards, the call returns
  the initialization failure as a value; otherwise it goes on with the rebuilt matrix.
\<close>

theorem single_reinitialization:
  assumes "as_ndarray (matriz_similaridade_global s) = None"
  shows "estado_de_busca ext s = inicializar_matcher ext (print ErroMatrizNaoInicializada s)
         \<and> inicializacoes (stdout (snd (encontrar_matches_para_trabalhador ext s wid top_n)))
             = Suc (inicializacoes (stdout s))
         \<and> (as_ndarray (matriz_similaridade_global (estado_de_busca ext s)) = None
              \<longrightarrow> encontrar_matches_para_trabalhador ext s wid top_n
                    = (Inr (Erro FalhaInicializar), estado_de_busca ext s))
         \<and> (\<forall>a. as_ndarray (matriz_similaridade_global (estado_de_busca ext s)) = Some a
              \<longrightarrow> encontrar_matches_para_trabalhador ext s wid top_n
                    = buscar_matches ext (estado_de_busca ext s) a wid top_n)"
proof -
  let ?s1 = "inicializar_matcher ext (print ErroMatrizNaoInicializada s)"
  have e: "estado_de_busca ext s = ?s1" using assms by (simp add: estado_de_busca_def)
  have c1: "inicializacoes (stdout ?s1) = Suc (inicializacoes (stdout s))"
    by (simp add: inicializar_matcher_stdout print_def inicializacoes_append)
  have "inicializacoes (stdout (snd (encontrar_matches_para_trabalhador ext s wid top_n)))
          = inicializacoes (stdout ?s1)"
    by (cases "as_ndarray (matriz_similaridade_global ?s1)")
       (simp_all add: encontrar_estado_de_busca e buscar_matches_stdout)
  with c1 e show ?thesis by (simp add: encontrar_estado_de_busca)
qed

text \<open>The theorem at the sample workers with no job and no cached matrix: the one
  re-initialization stops at the empty job list, and the failure is returned.\<close>

theorem single_reinitialization_witness:
  "as_ndarray (matriz_similaridade_global ((estado_exemplo MNone)\<lparr>vagas := []\<rparr>)) = None
   \<and> fst (encontrar_matches_para_trabalhador externals_exemplo
            ((estado_exemplo MNone)\<lparr>vagas := []\<rparr>) ''t1'' 3) = Inr (Erro FalhaInicializar)
   \<and> inicializacoes (stdout (snd (encontrar_matches_para_trabalhador externals_exemplo
            ((estado_exemplo MNone)\<lparr>vagas := []\<rparr>) ''t1'' 3))) = Suc 0"
proof -
  let ?s = "(estado_exemplo MNone)\<lparr>vagas := []\<rparr>"
  let ?s1 = "inicializar_matcher externals_exemplo (print ErroMatrizNaoInicializada ?s)"
  have h: "as_ndarray (matriz_similaridade_global ?s) = None"
    by (simp add: estado_exemplo_def as_ndarray_def)
  have i: "as_ndarray (matriz_similaridade_global ?s1) = None"
    by (simp add: inicializar_matcher_def print_def estado_exemplo_def as_ndarray_def Let_def)
  have z: "inicializacoes (stdout ?s) = 0"
    by (simp add: estado_exemplo_def inicializacoes_def)
  note th = single_reinitialization[OF h, of externals_exemplo "''t1''" 3]
  have A: "estado_de_busca externals_exemplo ?s = ?s1"
    by (rule th[THEN conjunct1])
  have B: "inicializacoes (stdout (snd (encontrar_matches_para_trabalhador
             externals_exemplo ?s ''t1'' 3))) = Suc 0"
    by (rule th[THEN conjunct2, THEN conjunct1, unfolded z])
  have "encontrar_matches_para_trabalhador externals_exemplo ?s ''t1'' 3
          = (Inr (Erro FalhaInicializar), ?s1)"
    by (rule th[THEN conjunct2, THEN conjunct2, THEN conjunct1, unfolded A, rule_format, OF i])
  then have "fst (encontrar_matches_para_trabalhador externals_exemplo ?s ''t1'' 3)
          = Inr (Erro FalhaInicializar)"
    by (simp only: fst_conv)
  with h B show ?thesis by (intro conjI)
qed






text \<open>
  C10.  A call that finds the cached matrix to be an array changes nothing but the
  output: the worker list, the job list, the vectorizer, the cached TF-IDF matrix, the
  cached similarity matrix and the two document lists are as before, and the
  initialization routine is not entered.
\<close>

theorem encontrar_read_only:
  assumes "as_ndarray (matriz_similaridade_global s) = Some a"
  shows "trabalhadores (snd (encontrar_matches_para_trabalhador ext s wid top_n))
           = trabalhadores s
         \<and> vagas (snd (encontrar_matches_para_trabalhador ext s wid top_n)) = vagas s
         \<and> vectorizer (snd (encontrar_matches_para_trabalhador ext s wid top_n))
           = vectorizer s
         \<and> tfidf_matrix_global (snd (encontrar_matches_para_trabalhador ext s wid top_n))
           = tfidf_matrix_global s
         \<and> matriz_similaridade_global (snd (encontrar_matches_para_trabalhador ext s wid top_n))
           = matriz_similaridade_global s
         \<and> docs_trabalhadores_global (snd (encontrar_matches_para_trabalhador ext s wid top_n))
           = docs_trabalhadores_global s
         \<and> docs_vagas_global (snd (encontrar_matches_para_trabalhador ext s wid top_n))
           = docs_vagas_global s
         \<and> inicializacoes (stdout (snd (encontrar_matches_para_trabalhador ext s wid top_n)))
           = inicializacoes (stdout s)"
proof -
  have e: "encontrar_matches_para_trabalhador ext s wid top_n = buscar_matches ext s a wid top_n"
    using assms by (simp add: encontrar_matches_para_trabalhador_def)
  obtain r s' where b: "buscar_matches ext s a wid top_n = (r, s')" by (cases "buscar_matches ext s a wid top_n")
  show ?thesis
    using buscar_matches_frame[OF b] buscar_matches_stdout[of ext s a wid top_n]
    by (simp add: e b)
qed

theorem encontrar_read_only_witness:
  "as_ndarray (matriz_similaridade_global
      (estado_exemplo (MArray (Arr2 [[Fin (1/2), Fin (1/4), Fin 0, Fin (1/2)],
                                     [Fin 0, Fin (1/8), Fin 0, Fin 0],
                                     [Fin 0, Fin 0, Fin (1/8), Fin 0],
                                     [Fin (1/8), Fin 0, Fin 0, Fin (3/4)]]))))
     = Some (Arr2 [[Fin (1/2), Fin (1/4), Fin 0, Fin (1/2)],
                   [Fin 0, Fin (1/8), Fin 0, Fin 0],
                   [Fin 0, Fin 0, Fin (1/8), Fin 0],
                   [Fin (1/8), Fin 0, Fin 0, Fin (3/4)]])
   \<and> matriz_similaridade_global (snd (encontrar_matches_para_trabalhador externals_exemplo
        (estado_exemplo (MArray (Arr2 [[Fin (1/2), Fin (1/4), Fin 0, Fin (1/2)],
                                       [Fin 0, Fin (1/8), Fin 0, Fin 0],
                                       [Fin 0, Fin 0, Fin (1/8), Fin 0],
                                       [Fin (1/8), Fin 0, Fin 0, Fin (3/4)]]))) ''t4'' 2))
     = MArray (Arr2 [[Fin (1/2), Fin (1/4), Fin 0, Fin (1/2)],
                     [Fin 0, Fin (1/8), Fin 0, Fin 0],
                     [Fin 0, Fin 0, Fin (1/8), Fin 0],
                     [Fin (1/8), Fin 0, Fin 0, Fin (3/4)]])
   \<and> tfidf_matrix_global (snd (encontrar_matches_para_trabalhador externals_exemplo
        (estado_exemplo (MArray (Arr2 [[Fin (1/2), Fin (1/4), Fin 0, Fin (1/2)],
                                       [Fin 0, Fin (1/8), Fin 0, Fin 0],
                                       [Fin 0, Fin 0, Fin (1/8), Fin 0],
                                       [Fin (1/8), Fin 0, Fin 0, Fin (3/4)]]))) ''t4'' 2))
     = None
   \<and> inicializacoes (stdout (snd (encontrar_matches_para_trabalhador externals_exemplo
        (estado_exemplo (MArray (Arr2 [[Fin (1/2), Fin (1/4), Fin 0, Fin (1/2)],
                                       [Fin 0, Fin (1/8), Fin 0, Fin 0],
                                       [Fin 0, Fin 0, Fin (1/8), Fin 0],
                                       [Fin (1/8), Fin 0, Fin 0, Fin (3/4)]]))) ''t4'' 2)))
     = 0"
proof -
  let ?A = "Arr2 [[Fin (1/2), Fin (1/4), Fin 0, Fin (1/2)],
                  [Fin 0, Fin (1/8), Fin 0, Fin 0],
                  [Fin 0, Fin 0, Fin (1/8), Fin 0],
                  [Fin (1/8), Fin 0, Fin 0, Fin (3/4)]]"
  have h: "as_ndarray (matriz_similaridade_global (estado_exemplo (MArray ?A))) = Some ?A"
    by (simp add: matriz_estado_exemplo as_ndarray_def)
  from encontrar_read_only[OF h, of externals_exemplo "''t4''" 2] h
  show ?thesis
    by (simp add: matriz_estado_exemplo estado_exemplo_campos inicializacoes_def)
qed

end
